theory Spec2Isabelle
  imports Complex_Main "HOL-Library.Word" "HOL-Library.Multiset"
begin

unbundle bit_operations_syntax

section \<open>Vertex metadata codec (GrCCCoverageProcessor_VSImpl.cpp, lines 13--51)\<close>

text \<open>
  The per-vertex payload is one \<open>int32_t\<close>; the shader reads it back as a 32-bit
  \<open>int\<close>. Both are modelled as \<open>32 word\<close>: \<open>push_bit\<close> is \<open><<\<close>,
  \<open>signed_drop_bit\<close> is \<open>>>\<close> on a signed integer, \<open>OR\<close>, \<open>AND\<close>, \<open>XOR\<close> are
  the bitwise operators, and \<open>+\<close>, \<open>-\<close> wrap around.
\<close>

type_synonym int32 = "32 word"
type_synonym uint16 = "16 word"

definition kVertexData_LeftNeighborIdShift :: nat where
  "kVertexData_LeftNeighborIdShift = 10"

definition kVertexData_RightNeighborIdShift :: nat where
  "kVertexData_RightNeighborIdShift = 8"

definition kVertexData_BloatIdxShift :: nat where
  "kVertexData_BloatIdxShift = 6"

definition kVertexData_InvertNegativeCoverageBit :: int32 where
  "kVertexData_InvertNegativeCoverageBit = push_bit 5 1"

definition kVertexData_IsCornerBit :: int32 where
  "kVertexData_IsCornerBit = push_bit 4 1"

definition kVertexData_IsEdgeBit :: int32 where
  "kVertexData_IsEdgeBit = push_bit 3 1"

definition kVertexData_IsHullBit :: int32 where
  "kVertexData_IsHullBit = push_bit 2 1"

definition pack_vertex_data :: "int32 \<Rightarrow> int32 \<Rightarrow> int32 \<Rightarrow> int32 \<Rightarrow> int32 \<Rightarrow> int32" where
  "pack_vertex_data leftNeighborID rightNeighborID bloatIdx cornerID extraData =
     push_bit kVertexData_LeftNeighborIdShift leftNeighborID OR
     push_bit kVertexData_RightNeighborIdShift rightNeighborID OR
     push_bit kVertexData_BloatIdxShift bloatIdx OR
     cornerID OR extraData"

text \<open>
  \<open>%\<close> is only applied to small non-negative values here, where C++ remainder and
  \<open>mod\<close> on the unsigned reading of the word agree.
\<close>

definition hull_vertex_data :: "int32 \<Rightarrow> int32 \<Rightarrow> int32 \<Rightarrow> int32" where
  "hull_vertex_data cornerID bloatIdx n =
     pack_vertex_data ((cornerID + n - 1) mod n) ((cornerID + 1) mod n) bloatIdx cornerID
       kVertexData_IsHullBit"

definition edge_vertex_data :: "int32 \<Rightarrow> int32 \<Rightarrow> int32 \<Rightarrow> int32 \<Rightarrow> int32" where
  "edge_vertex_data leftID rightID bloatIdx extraData =
     pack_vertex_data leftID leftID bloatIdx rightID (kVertexData_IsEdgeBit OR extraData)"

definition triangle_corner_vertex_data :: "int32 \<Rightarrow> int32 \<Rightarrow> int32" where
  "triangle_corner_vertex_data cornerID bloatIdx =
     pack_vertex_data ((cornerID + 2) mod 3) ((cornerID + 1) mod 3) bloatIdx cornerID
       kVertexData_IsCornerBit"

text \<open>
  The \<open>extraData\<close> argument for a combination of the four flags: the bitwise or of the
  bits of the flags that are set, as the table generators pass it.
\<close>

definition extra_flags :: "bool \<Rightarrow> bool \<Rightarrow> bool \<Rightarrow> bool \<Rightarrow> int32" where
  "extra_flags isHull isEdge isCorner invertCoverage =
     (if isHull then kVertexData_IsHullBit else 0) OR
     (if isEdge then kVertexData_IsEdgeBit else 0) OR
     (if isCorner then kVertexData_IsCornerBit else 0) OR
     (if invertCoverage then kVertexData_InvertNegativeCoverageBit else 0)"

section \<open>Static topology tables (lines 53--211)\<close>

definition kTriangleVertices :: "int32 list" where
  "kTriangleVertices = [
    hull_vertex_data 0 0 3,
    hull_vertex_data 0 1 3,
    hull_vertex_data 0 2 3,
    hull_vertex_data 1 0 3,
    hull_vertex_data 1 1 3,
    hull_vertex_data 1 2 3,
    hull_vertex_data 2 0 3,
    hull_vertex_data 2 1 3,
    hull_vertex_data 2 2 3,

    edge_vertex_data 0 1 0 0,
    edge_vertex_data 0 1 1 0,
    edge_vertex_data 0 1 2 0,
    edge_vertex_data 1 0 0 kVertexData_InvertNegativeCoverageBit,
    edge_vertex_data 1 0 1 kVertexData_InvertNegativeCoverageBit,
    edge_vertex_data 1 0 2 kVertexData_InvertNegativeCoverageBit,

    edge_vertex_data 1 2 0 0,
    edge_vertex_data 1 2 1 0,
    edge_vertex_data 1 2 2 0,
    edge_vertex_data 2 1 0 kVertexData_InvertNegativeCoverageBit,
    edge_vertex_data 2 1 1 kVertexData_InvertNegativeCoverageBit,
    edge_vertex_data 2 1 2 kVertexData_InvertNegativeCoverageBit,

    edge_vertex_data 2 0 0 0,
    edge_vertex_data 2 0 1 0,
    edge_vertex_data 2 0 2 0,
    edge_vertex_data 0 2 0 kVertexData_InvertNegativeCoverageBit,
    edge_vertex_data 0 2 1 kVertexData_InvertNegativeCoverageBit,
    edge_vertex_data 0 2 2 kVertexData_InvertNegativeCoverageBit,

    triangle_corner_vertex_data 0 0,
    triangle_corner_vertex_data 0 1,
    triangle_corner_vertex_data 0 2,
    triangle_corner_vertex_data 0 3,

    triangle_corner_vertex_data 1 0,
    triangle_corner_vertex_data 1 1,
    triangle_corner_vertex_data 1 2,
    triangle_corner_vertex_data 1 3,

    triangle_corner_vertex_data 2 0,
    triangle_corner_vertex_data 2 1,
    triangle_corner_vertex_data 2 2,
    triangle_corner_vertex_data 2 3
  ]"

definition kRestartStrip :: uint16 where
  "kRestartStrip = 0xffff"

definition kTriangleIndicesAsStrips :: "uint16 list" where
  "kTriangleIndicesAsStrips = [
    1, 2, 0, 3, 8, kRestartStrip,
    4, 5, 3, 6, 8, 7, kRestartStrip,
    10, 9, 11, 14, 12, 13, kRestartStrip,
    16, 15, 17, 20, 18, 19, kRestartStrip,
    22, 21, 23, 26, 24, 25, kRestartStrip,
    27, 28, 30, 29, kRestartStrip,
    31, 32, 34, 33, kRestartStrip,
    35, 36, 38, 37
  ]"

definition kTriangleIndicesAsTris :: "uint16 list" where
  "kTriangleIndicesAsTris = [
    1, 2, 0,
    2, 3, 0,
    0, 3, 8,

    4, 5, 3,
    5, 6, 3,
    3, 6, 8,
    6, 7, 8,

    10,  9, 11,
     9, 14, 11,
    11, 14, 12,
    14, 13, 12,

    16, 15, 17,
    15, 20, 17,
    17, 20, 18,
    20, 19, 18,

    22, 21, 23,
    21, 26, 23,
    23, 26, 24,
    26, 25, 24,

    27, 28, 30,
    28, 29, 30,

    31, 32, 34,
    32, 33, 34,

    35, 36, 38,
    36, 37, 38
  ]"

definition kHull4AndEdgeVertices :: "int32 list" where
  "kHull4AndEdgeVertices = [
    hull_vertex_data 0 0 4,
    hull_vertex_data 0 1 4,
    hull_vertex_data 0 2 4,
    hull_vertex_data 1 0 4,
    hull_vertex_data 1 1 4,
    hull_vertex_data 1 2 4,
    hull_vertex_data 2 0 4,
    hull_vertex_data 2 1 4,
    hull_vertex_data 2 2 4,
    hull_vertex_data 3 0 4,
    hull_vertex_data 3 1 4,
    hull_vertex_data 3 2 4,

    edge_vertex_data 0 3 0 kVertexData_InvertNegativeCoverageBit,
    edge_vertex_data 0 3 1 0,
    edge_vertex_data 0 3 2 0,
    edge_vertex_data 3 0 0 0,
    edge_vertex_data 3 0 1 0,
    edge_vertex_data 3 0 2 kVertexData_InvertNegativeCoverageBit
  ]"

definition kHull4AndEdgeIndicesAsStrips :: "uint16 list" where
  "kHull4AndEdgeIndicesAsStrips = [
    1, 0, 2, 11, 3, 5, 4, kRestartStrip,
    7, 6, 8, 5, 9, 11, 10, kRestartStrip,
    13, 12, 14, 17, 15, 16
  ]"

definition kHull4AndEdgeIndicesAsTris :: "uint16 list" where
  "kHull4AndEdgeIndicesAsTris = [
     1,  0,  2,
     0, 11,  2,
     2, 11,  3,
    11,  5,  3,
     3,  5,  4,

    7,  6,  8,
    6,  5,  8,
    8,  5,  9,
    5, 11,  9,
    9, 11, 10,

    13, 12, 14,
    12, 17, 14,
    14, 17, 15,
    17, 16, 15
  ]"

section \<open>The winding resolver (\<open>VSImpl::onEmitCode\<close>, lines 237--262) and the
  attribute layout (\<open>initVS\<close>, lines 492--514)\<close>

datatype RenderPass = kTriangles | kQuadratics | kCubics

datatype WindMethod = kCrossProduct | kInstanceData

datatype GrVertexAttribType = kFloat3_GrVertexAttribType | kFloat4_GrVertexAttribType

text \<open>A failed \<open>SkASSERT\<close> is an error value.\<close>

datatype failure = SkASSERT_failed

text \<open>
  Shader scalars (\<open>float\<close>, \<open>half\<close>) are modelled as real numbers; a \<open>float2\<close> is a
  pair and a \<open>bool2\<close> a pair of booleans.
\<close>

type_synonym float2 = "real \<times> real"
type_synonym bool2 = "bool \<times> bool"

text \<open>
  An instance carries the attributes \<open>X\<close> and \<open>Y\<close>, each with the components
  \<open>x, y, z, w\<close>.
\<close>

record float4 =
  comp_x :: real
  comp_y :: real
  comp_z :: real
  comp_w :: real

record Instance =
  fX :: float4
  fY :: float4

text \<open>
  \<open>proc.numInputPoints()\<close> is declared in a header that is not part of the sources at
  hand; it is a parameter \<open>numInputPoints\<close> of everything that reads it.
\<close>

record GrCCCoverageProcessor =
  fRenderPass :: RenderPass
  fWindMethod :: WindMethod

text \<open>\<open>float<n>x2 pts = transpose(float2x<n>(X.swizzle, Y.swizzle))\<close>: point \<open>i\<close> is
  \<open>(X[i], Y[i])\<close>; the swizzle is \<open>xyzw\<close> for four input points and \<open>xyz\<close> otherwise.\<close>

definition pts :: "nat \<Rightarrow> Instance \<Rightarrow> float2 list" where
  "pts numInputPoints inst =
     [(comp_x (fX inst), comp_x (fY inst)),
      (comp_y (fX inst), comp_y (fY inst)),
      (comp_z (fX inst), comp_z (fY inst))] @
     (if 4 = numInputPoints then [(comp_w (fX inst), comp_w (fY inst))] else [])"

definition vsub :: "float2 \<Rightarrow> float2 \<Rightarrow> float2" where
  "vsub a b = (fst a - fst b, snd a - snd b)"

definition vadd :: "float2 \<Rightarrow> float2 \<Rightarrow> float2" where
  "vadd a b = (fst a + fst b, snd a + snd b)"

definition vscale :: "float2 \<Rightarrow> real \<Rightarrow> float2" where
  "vscale a k = (fst a * k, snd a * k)"

text \<open>\<open>determinant(float2x2(a, b))\<close>, the matrix with columns \<open>a\<close> and \<open>b\<close>.\<close>

definition determinant :: "float2 \<Rightarrow> float2 \<Rightarrow> real" where
  "determinant a b = fst a * snd b - fst b * snd a"

text \<open>
  The \<open>wind\<close> variable of the vertex shader. With the cross-product method it is the
  sign of twice the area; otherwise the method is asserted to be instance data, the
  instance is asserted to have three input points, and \<open>wind\<close> is \<open>X.w\<close>.
\<close>

definition onEmitCode_wind ::
    "GrCCCoverageProcessor \<Rightarrow> nat \<Rightarrow> Instance \<Rightarrow> failure + real" where
  "onEmitCode_wind proc numInputPoints inst =
     (let p = pts numInputPoints inst in
      if kCrossProduct = fWindMethod proc then
        (let area_x2 = determinant (vsub (p ! 0) (p ! 1)) (vsub (p ! 0) (p ! 2));
             area_x2 = (if 4 = numInputPoints
                        then area_x2 + determinant (vsub (p ! 0) (p ! 2)) (vsub (p ! 0) (p ! 3))
                        else area_x2)
         in Inr (sgn area_x2))
      else if \<not> (kInstanceData = fWindMethod proc) then Inl SkASSERT_failed
      else if \<not> (3 = numInputPoints) then Inl SkASSERT_failed
      else Inr (comp_w (fX inst)))"

text \<open>
  The instance attribute type chosen by \<open>initVS\<close>: four-component attributes for the
  cubics pass and for instance-data winding (asserting there that the method is the cross
  product or that there are three input points), three-component attributes otherwise.
\<close>

definition initVS_attrib_type ::
    "GrCCCoverageProcessor \<Rightarrow> nat \<Rightarrow> failure + GrVertexAttribType" where
  "initVS_attrib_type proc numInputPoints =
     (if kCubics = fRenderPass proc \<or> kInstanceData = fWindMethod proc then
        (if \<not> (kCrossProduct = fWindMethod proc \<or> 3 = numInputPoints)
         then Inl SkASSERT_failed
         else Inr kFloat4_GrVertexAttribType)
      else Inr kFloat3_GrVertexAttribType)"

section \<open>The per-vertex evaluator (\<open>VSImpl::emitVertexPosition\<close>, lines 305--437)\<close>

definition numSides :: "RenderPass \<Rightarrow> int32" where
  "numSides pass = (if kTriangles = pass then 3 else 4)"

text \<open>The constant printed with \<open>0x%x\<close> into the shader (lines 318--321).\<close>

definition reverse_constant :: "RenderPass \<Rightarrow> int32" where
  "reverse_constant pass =
     push_bit kVertexData_LeftNeighborIdShift (numSides pass - 1) OR
     push_bit kVertexData_RightNeighborIdShift (numSides pass - 1) OR
     ((push_bit kVertexData_RightNeighborIdShift 1 - 1) XOR 3) OR
     (numSides pass - 1)"

text \<open>\<open>int clockwise_indices = wind > 0 ? vertexdata : 0x<constant> - vertexdata;\<close>\<close>

definition clockwise_indices :: "RenderPass \<Rightarrow> real \<Rightarrow> int32 \<Rightarrow> int32" where
  "clockwise_indices pass wind vertexdata =
     (if wind > 0 then vertexdata else reverse_constant pass - vertexdata)"

text \<open>The three subscripts of \<open>hullPts\<close> (lines 329--333).\<close>

definition corner_index :: "int32 \<Rightarrow> int32" where
  "corner_index ci = ci AND 3"

definition left_index :: "int32 \<Rightarrow> int32" where
  "left_index ci = signed_drop_bit kVertexData_LeftNeighborIdShift ci"

definition right_index :: "int32 \<Rightarrow> int32" where
  "right_index ci = signed_drop_bit kVertexData_RightNeighborIdShift ci AND 3"

text \<open>
  An array subscript outside the array is undefined in the shading language: the
  evaluator has no result there.
\<close>

definition subscript :: "float2 list \<Rightarrow> int32 \<Rightarrow> float2 option" where
  "subscript hullPts i =
     (if 0 \<le> sint i \<and> sint i < int (length hullPts) then Some (hullPts ! nat (sint i))
      else None)"

text \<open>The built-in functions of the shading language that the evaluator calls.\<close>

definition glsl_sign :: "float2 \<Rightarrow> float2" where
  "glsl_sign v = (sgn (fst v), sgn (snd v))"

definition glsl_notEqual :: "float2 \<Rightarrow> float2 \<Rightarrow> bool2" where
  "glsl_notEqual a b = (fst a \<noteq> fst b, snd a \<noteq> snd b)"

definition glsl_all :: "bool2 \<Rightarrow> bool" where
  "glsl_all b = (fst b \<and> snd b)"

definition glsl_any :: "bool2 \<Rightarrow> bool" where
  "glsl_any b = (fst b \<or> snd b)"

text \<open>\<open>normalize\<close> of the zero vector is undefined in the shading language; here the
  division by zero gives the zero vector.\<close>

definition glsl_normalize :: "float2 \<Rightarrow> float2" where
  "glsl_normalize v =
     (fst v / sqrt (fst v * fst v + snd v * snd v), snd v / sqrt (fst v * fst v + snd v * snd v))"

text \<open>Lines 335--337: \<open>leftbloat = sign(corner - left)\<close>, then its component-aware
  quarter turn.\<close>

definition leftbloat :: "float2 \<Rightarrow> float2 \<Rightarrow> float2" where
  "leftbloat corner left =
     (let lb = glsl_sign (vsub corner left)
      in (if 0 \<noteq> snd lb then snd lb else fst lb, if 0 \<noteq> fst lb then - fst lb else - snd lb))"

text \<open>Lines 339--341.\<close>

definition rightbloat :: "float2 \<Rightarrow> float2 \<Rightarrow> float2" where
  "rightbloat corner right =
     (let rb = glsl_sign (vsub right corner)
      in (if 0 \<noteq> snd rb then snd rb else fst rb, if 0 \<noteq> fst rb then - fst rb else - snd rb))"

definition is_corner :: "int32 \<Rightarrow> bool" where
  "is_corner vertexdata = (0 \<noteq> (vertexdata AND kVertexData_IsCornerBit))"

definition is_edge :: "int32 \<Rightarrow> bool" where
  "is_edge vertexdata = (0 \<noteq> (vertexdata AND kVertexData_IsEdgeBit))"

definition is_hull :: "int32 \<Rightarrow> bool" where
  "is_hull vertexdata = (0 \<noteq> (vertexdata AND kVertexData_IsHullBit))"

definition is_edge_or_corner :: "int32 \<Rightarrow> bool" where
  "is_edge_or_corner vertexdata =
     (0 \<noteq> (vertexdata AND (kVertexData_IsEdgeBit OR kVertexData_IsCornerBit)))"

definition invert_coverage :: "int32 \<Rightarrow> bool" where
  "invert_coverage vertexdata = (0 \<noteq> (vertexdata AND kVertexData_InvertNegativeCoverageBit))"

text \<open>
  Lines 343--364, the values of \<open>left_right_notequal\<close> and \<open>bloatdir\<close> on entry to the
  \<open>switch\<close>. Only the triangle pass emits the corner block.
\<close>

definition left_right_notequal ::
    "RenderPass \<Rightarrow> int32 \<Rightarrow> float2 \<Rightarrow> float2 \<Rightarrow> float2 \<Rightarrow> bool2" where
  "left_right_notequal pass vertexdata corner left right =
     (if kTriangles = pass \<and> is_corner vertexdata then (True, True)
      else glsl_notEqual (leftbloat corner left) (rightbloat corner right))"

definition bloatdir_before_switch ::
    "RenderPass \<Rightarrow> int32 \<Rightarrow> float2 \<Rightarrow> float2 \<Rightarrow> float2 \<Rightarrow> float2" where
  "bloatdir_before_switch pass vertexdata corner left right =
     (let bloatdir = leftbloat corner left in
      if kTriangles = pass \<and> is_corner vertexdata then
        (let bisect = vadd (glsl_normalize (vsub corner right)) (glsl_normalize (vsub corner left))
         in if glsl_sign bisect = glsl_sign (leftbloat corner left)
            then (snd bloatdir, - fst bloatdir) else bloatdir)
      else bloatdir)"

text \<open>\<open>int bloatidx = (vertexdata >> 6) & 3;\<close>\<close>

definition bloatidx :: "int32 \<Rightarrow> int32" where
  "bloatidx vertexdata = signed_drop_bit kVertexData_BloatIdxShift vertexdata AND 3"

text \<open>\<open>bloatdir = float2(-bloatdir.y, +bloatdir.x);  // 90 deg CW.\<close>\<close>

definition rotate_cw :: "float2 \<Rightarrow> float2" where
  "rotate_cw bloatdir = (- snd bloatdir, fst bloatdir)"

text \<open>
  Lines 373--390, the \<open>switch\<close> with its fall-through: a case is run when the switch
  jumps to it or when the case above it was run. \<open>case 3\<close> is emitted for the triangle
  pass only, and there is no default case.
\<close>

definition bloatidx_switch :: "RenderPass \<Rightarrow> int32 \<Rightarrow> bool2 \<Rightarrow> float2 \<Rightarrow> float2" where
  "bloatidx_switch pass idx notequal bloatdir =
     (let in_case3 = (kTriangles = pass \<and> idx = 3);
          bloatdir = (if in_case3 then rotate_cw bloatdir else bloatdir);
          in_case2 = (in_case3 \<or> idx = 2);
          bloatdir = (if in_case2 \<and> glsl_all notequal then rotate_cw bloatdir else bloatdir);
          in_case1 = (in_case2 \<or> idx = 1);
          bloatdir = (if in_case1 \<and> glsl_any notequal then rotate_cw bloatdir else bloatdir)
      in bloatdir)"

definition bloatdir_after_switch ::
    "RenderPass \<Rightarrow> int32 \<Rightarrow> float2 \<Rightarrow> float2 \<Rightarrow> float2 \<Rightarrow> float2" where
  "bloatdir_after_switch pass vertexdata corner left right =
     bloatidx_switch pass (bloatidx vertexdata)
       (left_right_notequal pass vertexdata corner left right)
       (bloatdir_before_switch pass vertexdata corner left right)"

text \<open>
  Lines 396--428, the coverage before the invert step. \<open>calc\<close> stands for the code that
  \<open>Shader::CalcEdgeCoverageAtBloatVertex\<close> emits (a function of its two points and of the
  bloat direction; its source is not at hand).
\<close>

definition coverage_before_invert ::
    "(float2 \<Rightarrow> float2 \<Rightarrow> float2 \<Rightarrow> real) \<Rightarrow> RenderPass \<Rightarrow> int32 \<Rightarrow>
     float2 \<Rightarrow> float2 \<Rightarrow> float2 \<Rightarrow> float2 \<Rightarrow> real" where
  "coverage_before_invert calc pass vertexdata corner left right bloatdir =
     (let coverage = 1 in
      if kTriangles = pass then
        (let coverage = (if is_edge_or_corner vertexdata then calc left corner bloatdir
                         else coverage)
         in if is_corner vertexdata then
              (let left_coverage = coverage;
                   right_coverage = calc corner right bloatdir;
                   coverage = (if 1 = bloatidx vertexdata then - 1 else 0);
                   coverage = (if sint ((bloatidx vertexdata + 3) AND 3) < 2
                               then coverage - left_coverage else coverage);
                   coverage = (if sint (bloatidx vertexdata) < 2
                               then coverage - right_coverage else coverage)
               in coverage)
            else coverage)
      else (if is_edge vertexdata then - 1 else coverage))"

text \<open>The whole evaluator: the output position and the coverage handed to the shader.\<close>

definition emitVertexPosition ::
    "(float2 \<Rightarrow> float2 \<Rightarrow> float2 \<Rightarrow> real) \<Rightarrow> RenderPass \<Rightarrow> float2 list \<Rightarrow> real \<Rightarrow> real \<Rightarrow>
     int32 \<Rightarrow> (float2 \<times> real) option" where
  "emitVertexPosition calc pass hullPts bloat wind vertexdata =
     (let ci = clockwise_indices pass wind vertexdata in
      case subscript hullPts (corner_index ci) of
        None \<Rightarrow> None
      | Some corner \<Rightarrow>
         (case subscript hullPts (left_index ci) of
            None \<Rightarrow> None
          | Some left \<Rightarrow>
             (case subscript hullPts (right_index ci) of
                None \<Rightarrow> None
              | Some right \<Rightarrow>
                 (let bloatdir = bloatdir_after_switch pass vertexdata corner left right;
                      vertex = vadd corner (vscale bloatdir bloat);
                      coverage = coverage_before_invert calc pass vertexdata corner left right
                                   bloatdir;
                      coverage = (if invert_coverage vertexdata then - 1 - coverage
                                  else coverage)
                  in Some (vertex, coverage)))))"

section \<open>Reading the index tables\<close>

text \<open>
  The index tables are handed to the GPU, which assembles triangles from them. The two
  assembly rules are not code of this file; they are written here after the graphics
  API's definition of the primitive types that \<open>initVS\<close> selects
  (\<open>GrPrimitiveType::kTriangleStrip\<close> with primitive restart, and
  \<open>GrPrimitiveType::kTriangles\<close>).
\<close>

text \<open>The entries of a strip table that are vertex indices: all but the restart sentinel.\<close>

definition strip_indices :: "uint16 list \<Rightarrow> uint16 list" where
  "strip_indices is = filter (\<lambda>i. i \<noteq> kRestartStrip) is"

text \<open>The restart-separated runs of a strip table; \<open>run\<close> is the run read so far.\<close>

fun strip_runs :: "uint16 list \<Rightarrow> uint16 list \<Rightarrow> uint16 list list" where
  "strip_runs run [] = [run]"
| "strip_runs run (i # is) =
     (if i = kRestartStrip then run # strip_runs [] is else strip_runs (run @ [i]) is)"

text \<open>
  Triangle-strip assembly of one run: every three consecutive indices form a triangle,
  and every second triangle has its first two indices swapped to keep the winding.
\<close>

fun strip_triangles :: "bool \<Rightarrow> 'a list \<Rightarrow> ('a \<times> 'a \<times> 'a) list" where
  "strip_triangles swap (a # b # c # is) =
     (if swap then (b, a, c) else (a, b, c)) # strip_triangles (\<not> swap) (b # c # is)"
| "strip_triangles swap is = []"

definition triangles_of_strips :: "uint16 list \<Rightarrow> (uint16 \<times> uint16 \<times> uint16) list" where
  "triangles_of_strips is = concat (map (strip_triangles False) (strip_runs [] is))"

text \<open>Triangle-list assembly: every three indices form a triangle.\<close>

fun triangles_of_list :: "'a list \<Rightarrow> ('a \<times> 'a \<times> 'a) list" where
  "triangles_of_list (a # b # c # is) = (a, b, c) # triangles_of_list is"
| "triangles_of_list is = []"

text \<open>A triangle with a repeated vertex id is degenerate.\<close>

fun nondegenerate :: "'a \<times> 'a \<times> 'a \<Rightarrow> bool" where
  "nondegenerate (a, b, c) = (a \<noteq> b \<and> b \<noteq> c \<and> a \<noteq> c)"

text \<open>A triangle as the unordered set of its vertex ids.\<close>

fun vertex_ids :: "'a \<times> 'a \<times> 'a \<Rightarrow> 'a set" where
  "vertex_ids (a, b, c) = {a, b, c}"

definition triangulation :: "(uint16 \<times> uint16 \<times> uint16) list \<Rightarrow> uint16 set multiset" where
  "triangulation ts = mset (map vertex_ids (filter nondegenerate ts))"

section \<open>Facts about the static tables\<close>

lemmas pack_defs =
  pack_vertex_data_def hull_vertex_data_def edge_vertex_data_def
  triangle_corner_vertex_data_def
  kVertexData_LeftNeighborIdShift_def kVertexData_RightNeighborIdShift_def
  kVertexData_BloatIdxShift_def kVertexData_InvertNegativeCoverageBit_def
  kVertexData_IsCornerBit_def kVertexData_IsEdgeBit_def kVertexData_IsHullBit_def

lemmas flag_defs = is_hull_def is_edge_def is_corner_def invert_coverage_def

lemmas index_defs = corner_index_def left_index_def right_index_def bloatidx_def

text \<open>
  C4 (as stated, refuted). The claim gives the index tables 39 and 42 entries for the
  triangle topology and 17 and 15 entries for the curve-quad topology. None of the four
  tables has the stated length.
\<close>

theorem index_table_sizes_counterexample:
  "length kTriangleIndicesAsStrips \<noteq> 39 \<and>
   length kTriangleIndicesAsTris \<noteq> 42 \<and>
   length kHull4AndEdgeIndicesAsStrips \<noteq> 17 \<and>
   length kHull4AndEdgeIndicesAsTris \<noteq> 15"
  by (simp add: kTriangleIndicesAsStrips_def kTriangleIndicesAsTris_def
      kHull4AndEdgeIndicesAsStrips_def kHull4AndEdgeIndicesAsTris_def)

text \<open>
  C4 (amended). The triangle topology has 39 vertex records (9 hull, 18 edge, 12 corner);
  its strip table has 48 entries, 41 indices and 7 restart sentinels, forming 8
  restart-separated runs, and its list table has 75 indices encoding 25 triangles. The
  curve-quad topology has 18 vertex records (12 hull, 6 edge, no corner); its strip table
  has 22 entries, 20 indices and 2 restart sentinels, forming 3 runs, and its list table
  has 42 indices encoding 14 triangles.
\<close>

theorem table_sizes:
  "length kTriangleVertices = 39 \<and>
   length (filter is_hull kTriangleVertices) = 9 \<and>
   length (filter is_edge kTriangleVertices) = 18 \<and>
   length (filter is_corner kTriangleVertices) = 12 \<and>
   length kTriangleIndicesAsStrips = 48 \<and>
   length (strip_indices kTriangleIndicesAsStrips) = 41 \<and>
   length (strip_runs [] kTriangleIndicesAsStrips) = 8 \<and>
   length kTriangleIndicesAsTris = 75 \<and>
   length (triangles_of_list kTriangleIndicesAsTris) = 25 \<and>
   length kHull4AndEdgeVertices = 18 \<and>
   length (filter is_hull kHull4AndEdgeVertices) = 12 \<and>
   length (filter is_edge kHull4AndEdgeVertices) = 6 \<and>
   length (filter is_corner kHull4AndEdgeVertices) = 0 \<and>
   length kHull4AndEdgeIndicesAsStrips = 22 \<and>
   length (strip_indices kHull4AndEdgeIndicesAsStrips) = 20 \<and>
   length (strip_runs [] kHull4AndEdgeIndicesAsStrips) = 3 \<and>
   length kHull4AndEdgeIndicesAsTris = 42 \<and>
   length (triangles_of_list kHull4AndEdgeIndicesAsTris) = 14"
proof -
  have tv: "length kTriangleVertices = 39 \<and>
      length (filter is_hull kTriangleVertices) = 9 \<and>
      length (filter is_edge kTriangleVertices) = 18 \<and>
      length (filter is_corner kTriangleVertices) = 12"
    by (simp add: kTriangleVertices_def pack_defs flag_defs)
  have ti: "length kTriangleIndicesAsStrips = 48 \<and>
      length (strip_indices kTriangleIndicesAsStrips) = 41 \<and>
      length (strip_runs [] kTriangleIndicesAsStrips) = 8 \<and>
      length kTriangleIndicesAsTris = 75 \<and>
      length (triangles_of_list kTriangleIndicesAsTris) = 25"
    by (simp add: kTriangleIndicesAsStrips_def kTriangleIndicesAsTris_def strip_indices_def
        kRestartStrip_def)
  have hv: "length kHull4AndEdgeVertices = 18 \<and>
      length (filter is_hull kHull4AndEdgeVertices) = 12 \<and>
      length (filter is_edge kHull4AndEdgeVertices) = 6 \<and>
      length (filter is_corner kHull4AndEdgeVertices) = 0"
    by (simp add: kHull4AndEdgeVertices_def pack_defs flag_defs)
  have hi: "length kHull4AndEdgeIndicesAsStrips = 22 \<and>
      length (strip_indices kHull4AndEdgeIndicesAsStrips) = 20 \<and>
      length (strip_runs [] kHull4AndEdgeIndicesAsStrips) = 3 \<and>
      length kHull4AndEdgeIndicesAsTris = 42 \<and>
      length (triangles_of_list kHull4AndEdgeIndicesAsTris) = 14"
    by (simp add: kHull4AndEdgeIndicesAsStrips_def kHull4AndEdgeIndicesAsTris_def
        strip_indices_def kRestartStrip_def)
  from tv ti hv hi show ?thesis by blast
qed

text \<open>
  C5. For each topology, the strip table (decoded by the triangle-strip rule with
  alternating winding, restarting at each \<open>0xFFFF\<close> sentinel) and the list table
  triangulate into the same multiset of non-degenerate triangles, a triangle being the
  unordered set of its vertex ids.
\<close>

theorem strip_and_list_triangulations_agree:
  "triangulation (triangles_of_strips kTriangleIndicesAsStrips) =
     triangulation (triangles_of_list kTriangleIndicesAsTris) \<and>
   triangulation (triangles_of_strips kHull4AndEdgeIndicesAsStrips) =
     triangulation (triangles_of_list kHull4AndEdgeIndicesAsTris)"
proof -
  have t: "triangulation (triangles_of_strips kTriangleIndicesAsStrips) =
      triangulation (triangles_of_list kTriangleIndicesAsTris)"
    by (simp add: triangulation_def kTriangleIndicesAsStrips_def kTriangleIndicesAsTris_def
        triangles_of_strips_def kRestartStrip_def insert_commute)
  have h: "triangulation (triangles_of_strips kHull4AndEdgeIndicesAsStrips) =
      triangulation (triangles_of_list kHull4AndEdgeIndicesAsTris)"
    by (simp add: triangulation_def kHull4AndEdgeIndicesAsStrips_def
        kHull4AndEdgeIndicesAsTris_def triangles_of_strips_def kRestartStrip_def
        insert_commute)
  from t h show ?thesis by (rule conjI)
qed

text \<open>
  C6. Every index of every index table is less than the vertex-record count of its
  topology: less than 39 in the triangle tables and less than 18 in the curve-quad
  tables. The indices of a strip table are its entries other than the restart sentinel
  \<open>kRestartStrip\<close>, which marks the end of a run and is not a vertex id.
\<close>

theorem indices_in_bounds:
  "length kTriangleVertices = 39 \<and>
   list_all (\<lambda>i. unat i < 39) (strip_indices kTriangleIndicesAsStrips) \<and>
   list_all (\<lambda>i. unat i < 39) kTriangleIndicesAsTris \<and>
   length kHull4AndEdgeVertices = 18 \<and>
   list_all (\<lambda>i. unat i < 18) (strip_indices kHull4AndEdgeIndicesAsStrips) \<and>
   list_all (\<lambda>i. unat i < 18) kHull4AndEdgeIndicesAsTris"
  by (simp add: kTriangleVertices_def kHull4AndEdgeVertices_def
      kTriangleIndicesAsStrips_def kTriangleIndicesAsTris_def
      kHull4AndEdgeIndicesAsStrips_def kHull4AndEdgeIndicesAsTris_def
      strip_indices_def kRestartStrip_def)

text \<open>
  C8 (as stated, refuted). In the curve-quad table the records 12 and 13 are edge records
  of the same direction (first endpoint 0, second endpoint 3), yet record 12 carries
  \<open>invertCoverage\<close> and record 13 does not: the three records of one direction do not
  share the flag.
\<close>

theorem curve_edge_invert_counterexample:
  "is_edge (kHull4AndEdgeVertices ! 12) \<and> is_edge (kHull4AndEdgeVertices ! 13) \<and>
   left_index (kHull4AndEdgeVertices ! 12) = left_index (kHull4AndEdgeVertices ! 13) \<and>
   corner_index (kHull4AndEdgeVertices ! 12) = corner_index (kHull4AndEdgeVertices ! 13) \<and>
   invert_coverage (kHull4AndEdgeVertices ! 12) \<and>
   \<not> invert_coverage (kHull4AndEdgeVertices ! 13)"
  by (simp add: kHull4AndEdgeVertices_def pack_defs flag_defs index_defs)

text \<open>
  C8 (amended). The edge records of each table, in table order, as (first endpoint,
  second endpoint, bloatIdx, invertCoverage). In the triangle table, for each of the
  three edges, the three records of the direction \<open>0\<rightarrow>1\<close>, \<open>1\<rightarrow>2\<close>, \<open>2\<rightarrow>0\<close> do not
  carry \<open>invertCoverage\<close> and the three records of the opposite direction all do. In the
  curve-quad table exactly one record of each direction of the shared edge carries it:
  bloatIdx 0 of direction \<open>0\<rightarrow>3\<close> and bloatIdx 2 of direction \<open>3\<rightarrow>0\<close>.
\<close>

theorem edge_invert_flags:
  "map (\<lambda>v. (left_index v, corner_index v, bloatidx v, invert_coverage v))
       (filter is_edge kTriangleVertices) =
     [(0, 1, 0, False), (0, 1, 1, False), (0, 1, 2, False),
      (1, 0, 0, True), (1, 0, 1, True), (1, 0, 2, True),
      (1, 2, 0, False), (1, 2, 1, False), (1, 2, 2, False),
      (2, 1, 0, True), (2, 1, 1, True), (2, 1, 2, True),
      (2, 0, 0, False), (2, 0, 1, False), (2, 0, 2, False),
      (0, 2, 0, True), (0, 2, 1, True), (0, 2, 2, True)] \<and>
   map (\<lambda>v. (left_index v, corner_index v, bloatidx v, invert_coverage v))
       (filter is_edge kHull4AndEdgeVertices) =
     [(0, 3, 0, True), (0, 3, 1, False), (0, 3, 2, False),
      (3, 0, 0, False), (3, 0, 1, False), (3, 0, 2, True)]"
proof -
  have t: "map (\<lambda>v. (left_index v, corner_index v, bloatidx v, invert_coverage v))
       (filter is_edge kTriangleVertices) =
     [(0, 1, 0, False), (0, 1, 1, False), (0, 1, 2, False),
      (1, 0, 0, True), (1, 0, 1, True), (1, 0, 2, True),
      (1, 2, 0, False), (1, 2, 1, False), (1, 2, 2, False),
      (2, 1, 0, True), (2, 1, 1, True), (2, 1, 2, True),
      (2, 0, 0, False), (2, 0, 1, False), (2, 0, 2, False),
      (0, 2, 0, True), (0, 2, 1, True), (0, 2, 2, True)]"
    by (simp add: kTriangleVertices_def pack_defs flag_defs index_defs)
  have h: "map (\<lambda>v. (left_index v, corner_index v, bloatidx v, invert_coverage v))
       (filter is_edge kHull4AndEdgeVertices) =
     [(0, 3, 0, True), (0, 3, 1, False), (0, 3, 2, False),
      (3, 0, 0, False), (3, 0, 1, False), (3, 0, 2, True)]"
    by (simp add: kHull4AndEdgeVertices_def pack_defs flag_defs index_defs)
  from t h show ?thesis by (rule conjI)
qed

section \<open>The codec round trip\<close>

lemma field_take_bit:
  fixes x :: int32
  assumes "x \<le> 3"
  shows "take_bit 2 x = x"
proof -
  from assms have "x < 2 ^ 2"
    by (simp add: word_less_nat_alt word_le_nat_alt)
  then have "x AND mask 2 = x"
    by (rule less_mask_eq)
  then show ?thesis
    by (simp add: take_bit_eq_mask)
qed

lemma three_is_mask: "(3::int32) = mask 2"
  by (simp add: mask_eq_exp_minus_1)

lemma bit_flag_consts:
  "bit kVertexData_IsHullBit n = (n = 2)"
  "bit kVertexData_IsEdgeBit n = (n = 3)"
  "bit kVertexData_IsCornerBit n = (n = 4)"
  "bit kVertexData_InvertNegativeCoverageBit n = (n = 5)"
  unfolding kVertexData_IsHullBit_def kVertexData_IsEdgeBit_def kVertexData_IsCornerBit_def
    kVertexData_InvertNegativeCoverageBit_def push_bit_of_1
  by (simp_all only: bit_exp_iff possible_bit_word) auto

lemma bit_extra_flags:
  "bit (extra_flags h e k i) n =
     ((n = 2 \<and> h) \<or> (n = 3 \<and> e) \<or> (n = 4 \<and> k) \<or> (n = 5 \<and> i))"
  by (auto simp add: extra_flags_def bit_flag_consts bit_simps)

text \<open>The layout of the packed word, bit by bit, for two-bit fields.\<close>

lemma bit_pack_take_bit:
  "bit (pack_vertex_data (take_bit 2 l) (take_bit 2 r) (take_bit 2 b) (take_bit 2 c)
          (extra_flags h e k i)) n =
    (if n < 2 then bit c n
     else if n < 6 then ((n = 2 \<and> h) \<or> (n = 3 \<and> e) \<or> (n = 4 \<and> k) \<or> (n = 5 \<and> i))
     else if n < 8 then bit b (n - 6)
     else if n < 10 then bit r (n - 8)
     else if n < 12 then bit l (n - 10) else False)"
  apply (simp add: pack_vertex_data_def bit_simps bit_extra_flags
      kVertexData_LeftNeighborIdShift_def kVertexData_RightNeighborIdShift_def
      kVertexData_BloatIdxShift_def)
  apply (auto simp: bit_simps dest: bit_imp_le_length)
  done

lemma bit_pack:
  assumes "l \<le> 3" "r \<le> 3" "b \<le> 3" "c \<le> 3"
  shows "bit (pack_vertex_data l r b c (extra_flags h e k i)) n =
    (if n < 2 then bit c n
     else if n < 6 then ((n = 2 \<and> h) \<or> (n = 3 \<and> e) \<or> (n = 4 \<and> k) \<or> (n = 5 \<and> i))
     else if n < 8 then bit b (n - 6)
     else if n < 10 then bit r (n - 8)
     else if n < 12 then bit l (n - 10) else False)"
  using bit_pack_take_bit [of l r b c h e k i n] assms
  by (simp add: field_take_bit)

lemma flag_bits:
  "is_hull v = bit v 2" "is_edge v = bit v 3" "is_corner v = bit v 4"
  "invert_coverage v = bit v 5"
  unfolding is_hull_def is_edge_def is_corner_def invert_coverage_def
    kVertexData_IsHullBit_def kVertexData_IsEdgeBit_def kVertexData_IsCornerBit_def
    kVertexData_InvertNegativeCoverageBit_def push_bit_of_1
  using and_exp_eq_0_iff_not_bit [of v 2] and_exp_eq_0_iff_not_bit [of v 3]
    and_exp_eq_0_iff_not_bit [of v 4] and_exp_eq_0_iff_not_bit [of v 5]
  by auto

lemma is_edge_or_corner_iff: "is_edge_or_corner v = (is_edge v \<or> is_corner v)"
  unfolding is_edge_or_corner_def is_edge_def is_corner_def
  by (auto simp add: bit.conj_disj_distrib or_eq_0_iff)

lemma unpack_take_bit:
  defines "pk l r b c h e k i \<equiv>
    pack_vertex_data (take_bit 2 l) (take_bit 2 r) (take_bit 2 b) (take_bit 2 c)
      (extra_flags h e k i)"
  shows "corner_index (pk l r b c h e k i) = take_bit 2 c"
    and "right_index (pk l r b c h e k i) = take_bit 2 r"
    and "bloatidx (pk l r b c h e k i) = take_bit 2 b"
    and "left_index (pk l r b c h e k i) = take_bit 2 l"
  unfolding pk_def corner_index_def right_index_def bloatidx_def left_index_def three_is_mask
    kVertexData_LeftNeighborIdShift_def kVertexData_RightNeighborIdShift_def
    kVertexData_BloatIdxShift_def
  by (rule bit_eqI;
      auto simp add: bit_simps bit_pack_take_bit bit_signed_drop_bit_iff
        dest: bit_imp_le_length)+

lemma unpack_fields:
  assumes "l \<le> 3" "r \<le> 3" "b \<le> 3" "c \<le> 3"
  shows "left_index (pack_vertex_data l r b c (extra_flags h e k i)) = l"
    and "right_index (pack_vertex_data l r b c (extra_flags h e k i)) = r"
    and "bloatidx (pack_vertex_data l r b c (extra_flags h e k i)) = b"
    and "corner_index (pack_vertex_data l r b c (extra_flags h e k i)) = c"
  using unpack_take_bit [of l r b c h e k i] assms
  by (simp_all add: field_take_bit)

lemma unpack_flags:
  assumes "l \<le> 3" "r \<le> 3" "b \<le> 3" "c \<le> 3"
  shows "is_hull (pack_vertex_data l r b c (extra_flags h e k i)) = h"
    and "is_edge (pack_vertex_data l r b c (extra_flags h e k i)) = e"
    and "is_corner (pack_vertex_data l r b c (extra_flags h e k i)) = k"
    and "invert_coverage (pack_vertex_data l r b c (extra_flags h e k i)) = i"
  using assms by (simp_all add: flag_bits bit_pack)

text \<open>
  C7. The pack function places \<open>leftNeighborId\<close> at bits 10--11, \<open>rightNeighborId\<close> at
  bits 8--9, \<open>bloatIdx\<close> at bits 6--7, the flags \<open>isHull\<close>, \<open>isEdge\<close>, \<open>isCorner\<close>,
  \<open>invertCoverage\<close> at bits 2, 3, 4, 5, and \<open>cornerId\<close> at bits 0--1, and sets no other
  bit. Hence, for all field values in \<open>[0,3]\<close> and every combination of the flags, the
  shifts and masks with which the shader reads the word give back the original values.
\<close>

theorem pack_unpack_roundtrip:
  assumes "l \<le> 3" and "r \<le> 3" and "b \<le> 3" and "c \<le> 3"
  shows
   "bit (pack_vertex_data l r b c (extra_flags h e k i)) n =
      (if n < 2 then bit c n
       else if n < 6 then ((n = 2 \<and> h) \<or> (n = 3 \<and> e) \<or> (n = 4 \<and> k) \<or> (n = 5 \<and> i))
       else if n < 8 then bit b (n - 6)
       else if n < 10 then bit r (n - 8)
       else if n < 12 then bit l (n - 10) else False) \<and>
    left_index (pack_vertex_data l r b c (extra_flags h e k i)) = l \<and>
    right_index (pack_vertex_data l r b c (extra_flags h e k i)) = r \<and>
    bloatidx (pack_vertex_data l r b c (extra_flags h e k i)) = b \<and>
    corner_index (pack_vertex_data l r b c (extra_flags h e k i)) = c \<and>
    is_hull (pack_vertex_data l r b c (extra_flags h e k i)) = h \<and>
    is_edge (pack_vertex_data l r b c (extra_flags h e k i)) = e \<and>
    is_corner (pack_vertex_data l r b c (extra_flags h e k i)) = k \<and>
    invert_coverage (pack_vertex_data l r b c (extra_flags h e k i)) = i"
  using assms bit_pack [OF assms] unpack_fields [OF assms] unpack_flags [OF assms]
  by simp

theorem pack_unpack_roundtrip_witness:
  "(2::int32) \<le> 3 \<and> (1::int32) \<le> 3 \<and> (3::int32) \<le> 3 \<and> (0::int32) \<le> 3 \<and>
   bit (pack_vertex_data 2 1 3 0 (extra_flags False False True True)) 11 \<and>
   left_index (pack_vertex_data 2 1 3 0 (extra_flags False False True True)) = 2 \<and>
   right_index (pack_vertex_data 2 1 3 0 (extra_flags False False True True)) = 1 \<and>
   bloatidx (pack_vertex_data 2 1 3 0 (extra_flags False False True True)) = 3 \<and>
   corner_index (pack_vertex_data 2 1 3 0 (extra_flags False False True True)) = 0 \<and>
   \<not> is_hull (pack_vertex_data 2 1 3 0 (extra_flags False False True True)) \<and>
   \<not> is_edge (pack_vertex_data 2 1 3 0 (extra_flags False False True True)) \<and>
   is_corner (pack_vertex_data 2 1 3 0 (extra_flags False False True True)) \<and>
   invert_coverage (pack_vertex_data 2 1 3 0 (extra_flags False False True True))"
  using pack_unpack_roundtrip [of 2 1 3 0 False False True True 11]
  by simp

section \<open>Neighbours of edge, hull and corner records\<close>

lemma edge_bit_or_extra_flags:
  "kVertexData_IsEdgeBit OR extra_flags h e k i = extra_flags h True k i"
  by (rule bit_eqI) (auto simp add: bit_simps bit_extra_flags bit_flag_consts)

lemma edge_vertex_data_fields:
  assumes "leftID \<le> 3" "rightID \<le> 3" "b \<le> 3"
  shows "left_index (edge_vertex_data leftID rightID b (extra_flags h e k i)) = leftID"
    and "right_index (edge_vertex_data leftID rightID b (extra_flags h e k i)) = leftID"
    and "corner_index (edge_vertex_data leftID rightID b (extra_flags h e k i)) = rightID"
    and "is_edge (edge_vertex_data leftID rightID b (extra_flags h e k i))"
  using assms
  by (simp_all add: edge_vertex_data_def edge_bit_or_extra_flags unpack_fields unpack_flags)

lemma table_neighbors:
  "list_all (\<lambda>v. if is_edge v
                  then left_index v = right_index v \<and> left_index v \<noteq> corner_index v
                  else left_index v = (corner_index v + 3 - 1) mod 3 \<and>
                       right_index v = (corner_index v + 1) mod 3 \<and>
                       left_index v \<noteq> right_index v)
     kTriangleVertices"
  "list_all (\<lambda>v. if is_edge v
                  then left_index v = right_index v \<and> left_index v \<noteq> corner_index v
                  else left_index v = (corner_index v + 4 - 1) mod 4 \<and>
                       right_index v = (corner_index v + 1) mod 4 \<and>
                       left_index v \<noteq> right_index v)
     kHull4AndEdgeVertices"
  by (simp_all add: kTriangleVertices_def kHull4AndEdgeVertices_def pack_defs flag_defs
      index_defs)

text \<open>
  C10. \<open>edge_vertex_data\<close> packs the edge's first endpoint \<open>leftID\<close> into both neighbour
  fields and its second endpoint \<open>rightID\<close> into the corner field. In both tables every
  edge record has equal neighbour fields, different from its corner, while every other
  record (hull or corner) has as neighbours the two distinct vertices cyclically adjacent
  to its corner in the polygon: \<open>(corner + N - 1) mod N\<close> on the left and
  \<open>(corner + 1) mod N\<close> on the right.
\<close>

theorem edge_records_single_neighbor:
  assumes "leftID \<le> 3" and "rightID \<le> 3" and "b \<le> 3"
  shows
   "left_index (edge_vertex_data leftID rightID b (extra_flags h e k i)) = leftID \<and>
    right_index (edge_vertex_data leftID rightID b (extra_flags h e k i)) = leftID \<and>
    corner_index (edge_vertex_data leftID rightID b (extra_flags h e k i)) = rightID \<and>
    is_edge (edge_vertex_data leftID rightID b (extra_flags h e k i)) \<and>
    list_all (\<lambda>v. if is_edge v
                  then left_index v = right_index v \<and> left_index v \<noteq> corner_index v
                  else left_index v = (corner_index v + 3 - 1) mod 3 \<and>
                       right_index v = (corner_index v + 1) mod 3 \<and>
                       left_index v \<noteq> right_index v)
      kTriangleVertices \<and>
    list_all (\<lambda>v. if is_edge v
                  then left_index v = right_index v \<and> left_index v \<noteq> corner_index v
                  else left_index v = (corner_index v + 4 - 1) mod 4 \<and>
                       right_index v = (corner_index v + 1) mod 4 \<and>
                       left_index v \<noteq> right_index v)
      kHull4AndEdgeVertices"
  using edge_vertex_data_fields [OF assms] table_neighbors
  by blast

theorem edge_records_single_neighbor_witness:
  "(1::int32) \<le> 3 \<and> (0::int32) \<le> 3 \<and> (2::int32) \<le> 3 \<and>
   left_index (edge_vertex_data 1 0 2 (extra_flags False False False True)) = 1 \<and>
   right_index (edge_vertex_data 1 0 2 (extra_flags False False False True)) = 1 \<and>
   corner_index (edge_vertex_data 1 0 2 (extra_flags False False False True)) = 0 \<and>
   is_edge (edge_vertex_data 1 0 2 (extra_flags False False False True)) \<and>
   extra_flags False False False True = kVertexData_InvertNegativeCoverageBit \<and>
   kTriangleVertices ! 14 = edge_vertex_data 1 0 2 (extra_flags False False False True)"
proof -
  have h: "(1::int32) \<le> 3" "(0::int32) \<le> 3" "(2::int32) \<le> 3"
    by simp_all
  have x: "extra_flags False False False True = kVertexData_InvertNegativeCoverageBit"
    by (simp add: extra_flags_def)
  have t: "kTriangleVertices ! 14 = edge_vertex_data 1 0 2 (extra_flags False False False True)"
    by (simp add: x kTriangleVertices_def)
  from h x t edge_records_single_neighbor [OF h, of False False False True]
  show ?thesis by blast
qed

section \<open>Reversing the indices for counter-clockwise instances\<close>

lemma pack_sum_take_bit:
  "pack_vertex_data (take_bit 2 l) (take_bit 2 r) (take_bit 2 b) (take_bit 2 c)
     (extra_flags h e k i) =
   push_bit 10 (take_bit 2 l) + (push_bit 8 (take_bit 2 r) +
     (push_bit 6 (take_bit 2 b) + (take_bit 2 c + extra_flags h e k i)))"
proof -
  let ?x = "extra_flags h e k i"
  let ?c = "take_bit 2 c :: int32"
  let ?b = "push_bit 6 (take_bit 2 b) :: int32"
  let ?r = "push_bit 8 (take_bit 2 r) :: int32"
  let ?l = "push_bit 10 (take_bit 2 l) :: int32"
  have 1: "?c + ?x = ?c OR ?x"
    by (rule disjunctive_add) (auto simp add: bit_simps bit_extra_flags)
  have 2: "?b + (?c OR ?x) = ?b OR (?c OR ?x)"
    by (rule disjunctive_add) (auto simp add: bit_simps bit_extra_flags)
  have 3: "?r + (?b OR (?c OR ?x)) = ?r OR (?b OR (?c OR ?x))"
    by (rule disjunctive_add) (auto simp add: bit_simps bit_extra_flags)
  have 4: "?l + (?r OR (?b OR (?c OR ?x))) = ?l OR (?r OR (?b OR (?c OR ?x)))"
    by (rule disjunctive_add) (auto simp add: bit_simps bit_extra_flags)
  show ?thesis
    unfolding pack_vertex_data_def kVertexData_LeftNeighborIdShift_def
      kVertexData_RightNeighborIdShift_def kVertexData_BloatIdxShift_def
    by (simp only: 1 2 3 4)
qed

lemma pack_sum:
  assumes "l \<le> 3" "r \<le> 3" "b \<le> 3" "c \<le> 3"
  shows "pack_vertex_data l r b c (extra_flags h e k i) =
    l * 1024 + r * 256 + b * 64 + c + extra_flags h e k i"
  using pack_sum_take_bit [of l r b c h e k i] assms
  by (simp add: field_take_bit push_bit_eq_mult)

lemma extra_flags_complement:
  "60 - extra_flags h e k i = extra_flags (\<not> h) (\<not> e) (\<not> k) (\<not> i)"
  by (cases h; cases e; cases k; cases i) (simp_all add: extra_flags_def pack_defs)

lemma field_complement:
  fixes x m :: int32
  assumes "x \<le> m" "m \<le> 3"
  shows "m - x \<le> 3"
proof -
  have "m - x \<le> m" using assms(1) by (rule word_sub_le)
  then show ?thesis using assms(2) by simp
qed

lemma reverse_constant_values:
  "reverse_constant pass = (numSides pass - 1) * 1024 + (numSides pass - 1) * 256 + 3 * 64
     + (numSides pass - 1) + 60"
  by (cases pass) (simp_all add: reverse_constant_def numSides_def pack_defs)

lemma numSides_le: "numSides pass - 1 \<le> 3"
  by (simp add: numSides_def)

lemma reverse_pack:
  assumes "l \<le> numSides pass - 1" "r \<le> numSides pass - 1" "b \<le> 3" "c \<le> numSides pass - 1"
  shows "reverse_constant pass - pack_vertex_data l r b c (extra_flags h e k i) =
     pack_vertex_data (numSides pass - 1 - l) (numSides pass - 1 - r) (3 - b)
       (numSides pass - 1 - c) (extra_flags (\<not> h) (\<not> e) (\<not> k) (\<not> i))"
proof -
  let ?m = "numSides pass - 1"
  have le: "l \<le> 3" "r \<le> 3" "c \<le> 3"
    using assms numSides_le [of pass] by auto
  have le': "?m - l \<le> 3" "?m - r \<le> 3" "3 - b \<le> 3" "?m - c \<le> 3"
    using assms numSides_le [of pass] by (auto intro: field_complement)
  have "reverse_constant pass - pack_vertex_data l r b c (extra_flags h e k i) =
      (?m - l) * 1024 + (?m - r) * 256 + (3 - b) * 64 + (?m - c) + (60 - extra_flags h e k i)"
    unfolding reverse_constant_values pack_sum [OF le(1) le(2) assms(3) le(3)]
    by (simp add: algebra_simps)
  also have "\<dots> = pack_vertex_data (?m - l) (?m - r) (3 - b) (?m - c)
       (extra_flags (\<not> h) (\<not> e) (\<not> k) (\<not> i))"
    unfolding extra_flags_complement pack_sum [OF le']
    by simp
  finally show ?thesis .
qed

lemma reverse_xor:
  assumes "l \<le> 3" "r \<le> 3" "b \<le> 3" "c \<le> 3"
  shows "0xFFF - pack_vertex_data l r b c (extra_flags h e k i) =
     pack_vertex_data l r b c (extra_flags h e k i) XOR 0xFFF"
proof -
  let ?v = "pack_vertex_data l r b c (extra_flags h e k i)"
  have m: "(0xFFF :: int32) = mask 12"
    by (simp add: mask_eq_exp_minus_1)
  have sub: "bit (mask 12 :: int32) n" if "bit ?v n" for n
    using that by (auto simp add: bit_pack [OF assms] bit_simps split: if_splits)
  have "mask 12 - ?v = mask 12 AND NOT ?v"
    by (rule disjunctive_diff) (rule sub)
  also have "\<dots> = ?v XOR mask 12"
    by (rule bit_eqI) (use sub in \<open>auto simp add: bit_simps\<close>)
  finally show ?thesis
    by (simp only: m)
qed

text \<open>
  C3 (as stated, refuted). In the triangle pass the remapped word is not the packed word
  xor-ed with a fixed mask: the mask that takes record 0 of the triangle table to its
  remapped word differs from the mask that does so for record 3.
\<close>

theorem clockwise_indices_xor_counterexample:
  "clockwise_indices kTriangles (- 1) (kTriangleVertices ! 0) XOR kTriangleVertices ! 0 \<noteq>
   clockwise_indices kTriangles (- 1) (kTriangleVertices ! 3) XOR kTriangleVertices ! 3"
  by (simp add: clockwise_indices_def reverse_constant_def numSides_def kTriangleVertices_def
      pack_defs)

text \<open>
  C3 (amended). When \<open>wind\<close> is positive the packed word is used unchanged. Otherwise the
  evaluator subtracts the packed word from a fixed constant, \<open>0xAFE\<close> in the triangle
  pass and \<open>0xFFF\<close> in the two curve passes. For every packed word whose three index
  fields are at most \<open>N - 1\<close>, \<open>N\<close> the number of sides, the subtraction works field by
  field: each index \<open>i\<close> becomes \<open>(N - 1) - i\<close>, the bloatIdx field becomes
  \<open>3 - bloatIdx\<close> and the four flag bits are complemented, so the selected corner, left
  and right indices are reversed. In the curve passes (and only there) this is the xor of
  the packed word with \<open>0xFFF\<close>.
\<close>

theorem clockwise_indices_reverse:
  assumes "l \<le> numSides pass - 1" and "r \<le> numSides pass - 1" and "b \<le> 3"
    and "c \<le> numSides pass - 1"
  shows
   "clockwise_indices pass wind (pack_vertex_data l r b c (extra_flags h e k i)) =
      (if wind > 0 then pack_vertex_data l r b c (extra_flags h e k i)
       else pack_vertex_data (numSides pass - 1 - l) (numSides pass - 1 - r) (3 - b)
              (numSides pass - 1 - c) (extra_flags (\<not> h) (\<not> e) (\<not> k) (\<not> i))) \<and>
    corner_index (clockwise_indices pass wind
        (pack_vertex_data l r b c (extra_flags h e k i))) =
      (if wind > 0 then c else numSides pass - 1 - c) \<and>
    left_index (clockwise_indices pass wind
        (pack_vertex_data l r b c (extra_flags h e k i))) =
      (if wind > 0 then l else numSides pass - 1 - l) \<and>
    right_index (clockwise_indices pass wind
        (pack_vertex_data l r b c (extra_flags h e k i))) =
      (if wind > 0 then r else numSides pass - 1 - r) \<and>
    reverse_constant pass = (if pass = kTriangles then 0xAFE else 0xFFF) \<and>
    (if pass = kTriangles then numSides pass = 3
     else numSides pass = 4 \<and>
          clockwise_indices pass wind (pack_vertex_data l r b c (extra_flags h e k i)) =
            (if wind > 0 then pack_vertex_data l r b c (extra_flags h e k i)
             else pack_vertex_data l r b c (extra_flags h e k i) XOR 0xFFF))"
proof -
  let ?m = "numSides pass - 1"
  let ?v = "pack_vertex_data l r b c (extra_flags h e k i)"
  let ?w = "pack_vertex_data (?m - l) (?m - r) (3 - b) (?m - c)
              (extra_flags (\<not> h) (\<not> e) (\<not> k) (\<not> i))"
  have le: "l \<le> 3" "r \<le> 3" "c \<le> 3"
    using assms numSides_le [of pass] by auto
  have le': "?m - l \<le> 3" "?m - r \<le> 3" "3 - b \<le> 3" "?m - c \<le> 3"
    using assms numSides_le [of pass] by (auto intro: field_complement)
  have ci: "clockwise_indices pass wind ?v = (if wind > 0 then ?v else ?w)"
    by (simp add: clockwise_indices_def reverse_pack [OF assms(1) assms(2) assms(3) assms(4)])
  have fields_v: "corner_index ?v = c" "left_index ?v = l" "right_index ?v = r"
    using unpack_fields [OF le(1) le(2) assms(3) le(3)] by simp_all
  have fields_w: "corner_index ?w = ?m - c" "left_index ?w = ?m - l" "right_index ?w = ?m - r"
    using unpack_fields [OF le'] by simp_all
  have rc: "reverse_constant pass = (if pass = kTriangles then 0xAFE else 0xFFF)"
    by (cases pass) (simp_all add: reverse_constant_def numSides_def pack_defs)
  have x: "clockwise_indices pass wind ?v = (if wind > 0 then ?v else ?v XOR 0xFFF)"
    if "pass \<noteq> kTriangles"
    using that rc reverse_xor [OF le(1) le(2) assms(3) le(3), of h e k i]
    by (simp add: clockwise_indices_def)
  show ?thesis
    using ci fields_v fields_w rc x by (simp add: numSides_def)
qed

theorem clockwise_indices_reverse_witness:
  "(2::int32) \<le> numSides kTriangles - 1 \<and> (1::int32) \<le> numSides kTriangles - 1 \<and>
   (0::int32) \<le> 3 \<and> (0::int32) \<le> numSides kTriangles - 1 \<and>
   kTriangleVertices ! 0 = pack_vertex_data 2 1 0 0 (extra_flags True False False False) \<and>
   corner_index (clockwise_indices kTriangles (- 1)
     (pack_vertex_data 2 1 0 0 (extra_flags True False False False))) = 2 \<and>
   left_index (clockwise_indices kTriangles (- 1)
     (pack_vertex_data 2 1 0 0 (extra_flags True False False False))) = 0 \<and>
   right_index (clockwise_indices kTriangles (- 1)
     (pack_vertex_data 2 1 0 0 (extra_flags True False False False))) = 1 \<and>
   clockwise_indices kTriangles 1
     (pack_vertex_data 2 1 0 0 (extra_flags True False False False)) =
     pack_vertex_data 2 1 0 0 (extra_flags True False False False)"
proof -
  have h: "(2::int32) \<le> numSides kTriangles - 1" "(1::int32) \<le> numSides kTriangles - 1"
    "(0::int32) \<le> 3" "(0::int32) \<le> numSides kTriangles - 1"
    by (simp_all add: numSides_def)
  have t: "kTriangleVertices ! 0 =
      pack_vertex_data 2 1 0 0 (extra_flags True False False False)"
    by (simp add: kTriangleVertices_def hull_vertex_data_def extra_flags_def)
  have n: "numSides kTriangles - 1 - 0 = 2" "numSides kTriangles - 1 - 2 = 0"
    "numSides kTriangles - 1 - 1 = 1"
    by (simp_all add: numSides_def)
  from h t n
    clockwise_indices_reverse [OF h, of "- 1" True False False False]
    clockwise_indices_reverse [OF h, of 1 True False False False]
  show ?thesis by (simp add: pack_defs index_defs extra_flags_def)
qed

section \<open>The rotation cascade\<close>

lemma bloatidx_le: "bloatidx v \<le> 3"
  unfolding bloatidx_def by (rule word_and_le1)

lemma field_cases:
  fixes x :: int32
  assumes "x \<le> 3"
  shows "x = 0 \<or> x = 1 \<or> x = 2 \<or> x = 3"
proof -
  from assms have "unat x \<le> 3"
    by (simp add: word_le_nat_alt)
  then have "unat x = 0 \<or> unat x = 1 \<or> unat x = 2 \<or> unat x = 3"
    by arith
  then show ?thesis
    by (auto simp add: word_unat_eq_iff)
qed

lemma funpow_small:
  "(f ^^ 2) x = f (f x)" "(f ^^ 3) x = f (f (f x))"
  by (simp_all add: numeral_2_eq_2 numeral_3_eq_3)

lemma bloatidx_switch_cases:
  "bloatidx_switch pass 0 ne d = d"
  "bloatidx_switch pass 1 ne d = (rotate_cw ^^ of_bool (glsl_any ne)) d"
  "bloatidx_switch pass 2 ne d = (rotate_cw ^^ (of_bool (glsl_all ne) + of_bool (glsl_any ne))) d"
  "bloatidx_switch pass 3 ne d =
     (rotate_cw ^^ (if kTriangles = pass then 1 + of_bool (glsl_all ne) + of_bool (glsl_any ne)
                    else 0)) d"
  by (simp_all add: bloatidx_switch_def Let_def of_bool_def funpow_small)

text \<open>The quarter turn of the corner block is the inverse of the clockwise one.\<close>

lemma rotate_cw_inverse: "rotate_cw (snd d, - fst d) = d"
  by (simp add: rotate_cw_def)

lemma rotate_cw_powers:
  "(rotate_cw ^^ 2) d = (- fst d, - snd d)"
  "(rotate_cw ^^ 3) d = (snd d, - fst d)"
  by (simp_all add: funpow_small rotate_cw_def)

lemma bisect_sign_example:
  "glsl_sign (vadd (glsl_normalize (vsub (4, 0) (0, 4)))
                   (glsl_normalize (vsub (4, 0) (0, 0)))) = (1, - 1)"
proof -
  have p: "0 < sqrt 32"
    by simp
  have a: "sgn (4 / sqrt 32 + 1) = 1"
    using p by (intro sgn_pos add_pos_pos divide_pos_pos) simp_all
  have b: "sgn (- (4 / sqrt 32)) = - 1"
    using p by (intro sgn_neg) simp
  show ?thesis
    using a b by (simp add: glsl_sign_def vadd_def glsl_normalize_def vsub_def)
qed

text \<open>
  C1 (as stated, refuted). On the triangle \<open>(0,0), (4,0), (0,4)\<close>, whose wind is \<open>+1\<close>,
  record 31 of the triangle table is a corner record with bloatIdx 0; it selects the
  corner \<open>(4,0)\<close> with left neighbour \<open>(0,0)\<close> and right neighbour \<open>(0,4)\<close>. Its
  \<open>leftbloat\<close> is \<open>(1, -1)\<close>, yet the bloat direction after the \<open>switch\<close> is
  \<open>(-1, -1)\<close>: the corner block has turned the direction although bloatIdx is 0.
\<close>

theorem corner_preturn_counterexample:
  "kTriangleVertices ! 31 = triangle_corner_vertex_data 1 0 \<and>
   is_corner (kTriangleVertices ! 31) \<and>
   bloatidx (kTriangleVertices ! 31) = 0 \<and>
   onEmitCode_wind \<lparr>fRenderPass = kTriangles, fWindMethod = kCrossProduct\<rparr> 3
     \<lparr>fX = \<lparr>comp_x = 0, comp_y = 4, comp_z = 0, comp_w = 0\<rparr>,
      fY = \<lparr>comp_x = 0, comp_y = 0, comp_z = 4, comp_w = 0\<rparr>\<rparr> = Inr 1 \<and>
   corner_index (clockwise_indices kTriangles 1 (kTriangleVertices ! 31)) = 1 \<and>
   left_index (clockwise_indices kTriangles 1 (kTriangleVertices ! 31)) = 0 \<and>
   right_index (clockwise_indices kTriangles 1 (kTriangleVertices ! 31)) = 2 \<and>
   leftbloat (4, 0) (0, 0) = (1, - 1) \<and>
   bloatdir_after_switch kTriangles (kTriangleVertices ! 31) (4, 0) (0, 0) (0, 4) = (- 1, - 1) \<and>
   bloatdir_after_switch kTriangles (kTriangleVertices ! 31) (4, 0) (0, 0) (0, 4) \<noteq>
     leftbloat (4, 0) (0, 0)"
proof -
  have r: "kTriangleVertices ! 31 = triangle_corner_vertex_data 1 0"
    by (simp add: kTriangleVertices_def)
  have c: "is_corner (triangle_corner_vertex_data 1 0)"
    by (simp add: pack_defs is_corner_def)
  have b: "bloatidx (triangle_corner_vertex_data 1 0) = 0"
    by (simp add: pack_defs bloatidx_def)
  have w: "onEmitCode_wind \<lparr>fRenderPass = kTriangles, fWindMethod = kCrossProduct\<rparr> 3
     \<lparr>fX = \<lparr>comp_x = 0, comp_y = 4, comp_z = 0, comp_w = 0\<rparr>,
      fY = \<lparr>comp_x = 0, comp_y = 0, comp_z = 4, comp_w = 0\<rparr>\<rparr> = Inr 1"
    by (simp add: onEmitCode_wind_def pts_def determinant_def vsub_def)
  have i: "corner_index (clockwise_indices kTriangles 1 (triangle_corner_vertex_data 1 0)) = 1"
    "left_index (clockwise_indices kTriangles 1 (triangle_corner_vertex_data 1 0)) = 0"
    "right_index (clockwise_indices kTriangles 1 (triangle_corner_vertex_data 1 0)) = 2"
    by (simp_all add: clockwise_indices_def pack_defs index_defs)
  have lb: "leftbloat (4, 0) (0, 0) = (1, - 1)"
    by (simp add: leftbloat_def glsl_sign_def vsub_def)
  have sl: "glsl_sign (1, - 1) = (1, - 1)"
    by (simp add: glsl_sign_def)
  have d0: "bloatdir_before_switch kTriangles (triangle_corner_vertex_data 1 0)
      (4, 0) (0, 0) (0, 4) = (- 1, - 1)"
    using c by (simp add: bloatdir_before_switch_def Let_def bisect_sign_example lb sl)
  have d: "bloatdir_after_switch kTriangles (triangle_corner_vertex_data 1 0)
      (4, 0) (0, 0) (0, 4) = (- 1, - 1)"
    by (simp add: bloatdir_after_switch_def b d0 bloatidx_switch_def)
  show ?thesis
    unfolding r using c b w i lb d by simp
qed

text \<open>
  C1 (amended). A clockwise quarter turn is \<open>(x, y) \<mapsto> (-y, +x)\<close>; two of them give
  \<open>(-x, -y)\<close> and three give \<open>(+y, -x)\<close>. For every vertex record and instance the
  \<open>switch\<close> applies to the bloat direction a number of clockwise quarter turns that
  bloatIdx and \<open>left_right_notequal\<close> determine as a cascade: none for bloatIdx 0; one
  iff any component is true for bloatIdx 1; one iff both are true plus one iff any is true
  for bloatIdx 2; and, in the triangle pass, one unconditional turn plus the former two
  for bloatIdx 3. For a corner record (triangle pass) \<open>left_right_notequal\<close> is first
  forced to \<open>(true, true)\<close>, so that bloatIdx 0, 1, 2, 3 apply 0, 1, 2, 3 turns; only
  corner records have bloatIdx 3. The direction that these turns are applied to is
  \<open>leftbloat\<close> for every hull and edge record. For a corner record it is \<open>leftbloat\<close>,
  or, when \<open>sign(bisect) == sign(leftbloat)\<close>, \<open>leftbloat\<close> turned once the opposite way
  \<open>(+y, -x)\<close>, which amounts to three more clockwise turns of \<open>leftbloat\<close>.
\<close>

theorem rotation_cascade:
  "rotate_cw d = (- snd d, fst d) \<and>
   (rotate_cw ^^ 2) d = (- fst d, - snd d) \<and>
   (rotate_cw ^^ 3) d = (snd d, - fst d) \<and>
   glsl_any b = (fst b \<or> snd b) \<and>
   glsl_all b = (fst b \<and> snd b) \<and>
   bloatdir_after_switch pass v corner left right =
     (rotate_cw ^^
        (if bloatidx v = 0 then 0
         else if bloatidx v = 1
           then of_bool (glsl_any (left_right_notequal pass v corner left right))
         else if bloatidx v = 2
           then of_bool (glsl_all (left_right_notequal pass v corner left right)) +
                of_bool (glsl_any (left_right_notequal pass v corner left right))
         else if kTriangles = pass
           then 1 + of_bool (glsl_all (left_right_notequal pass v corner left right)) +
                of_bool (glsl_any (left_right_notequal pass v corner left right))
         else 0))
       (bloatdir_before_switch pass v corner left right) \<and>
   left_right_notequal pass v corner left right =
     (if kTriangles = pass \<and> is_corner v then (True, True)
      else glsl_notEqual (leftbloat corner left) (rightbloat corner right)) \<and>
   (if kTriangles = pass \<and> is_corner v
    then bloatdir_after_switch pass v corner left right =
           (rotate_cw ^^
              (if bloatidx v = 0 then 0 else if bloatidx v = 1 then 1
               else if bloatidx v = 2 then 2 else 3))
             (bloatdir_before_switch pass v corner left right)
    else bloatdir_before_switch pass v corner left right = leftbloat corner left) \<and>
   bloatdir_before_switch pass v corner left right =
     (if kTriangles = pass \<and> is_corner v \<and>
         glsl_sign (vadd (glsl_normalize (vsub corner right))
                         (glsl_normalize (vsub corner left))) =
           glsl_sign (leftbloat corner left)
      then (snd (leftbloat corner left), - fst (leftbloat corner left))
      else leftbloat corner left) \<and>
   bloatdir_after_switch pass v corner left right =
     (rotate_cw ^^
        ((if bloatidx v = 0 then 0
          else if bloatidx v = 1
            then of_bool (glsl_any (left_right_notequal pass v corner left right))
          else if bloatidx v = 2
            then of_bool (glsl_all (left_right_notequal pass v corner left right)) +
                 of_bool (glsl_any (left_right_notequal pass v corner left right))
          else if kTriangles = pass
            then 1 + of_bool (glsl_all (left_right_notequal pass v corner left right)) +
                 of_bool (glsl_any (left_right_notequal pass v corner left right))
          else 0) +
         (if kTriangles = pass \<and> is_corner v \<and>
             glsl_sign (vadd (glsl_normalize (vsub corner right))
                             (glsl_normalize (vsub corner left))) =
               glsl_sign (leftbloat corner left)
          then 3 else 0)))
       (leftbloat corner left) \<and>
   filter (\<lambda>v. bloatidx v = 3) kTriangleVertices =
     [triangle_corner_vertex_data 0 3, triangle_corner_vertex_data 1 3,
      triangle_corner_vertex_data 2 3] \<and>
   filter (\<lambda>v. bloatidx v = 3) kHull4AndEdgeVertices = []"
proof -
  let ?ne = "left_right_notequal pass v corner left right"
  let ?d0 = "bloatdir_before_switch pass v corner left right"
  let ?lb = "leftbloat corner left"
  let ?M = "kTriangles = pass \<and> is_corner v \<and>
         glsl_sign (vadd (glsl_normalize (vsub corner right))
                         (glsl_normalize (vsub corner left))) = glsl_sign ?lb"
  define n :: nat where "n =
        (if bloatidx v = 0 then 0
         else if bloatidx v = 1 then of_bool (glsl_any ?ne)
         else if bloatidx v = 2 then of_bool (glsl_all ?ne) + of_bool (glsl_any ?ne)
         else if kTriangles = pass then 1 + of_bool (glsl_all ?ne) + of_bool (glsl_any ?ne)
         else 0)"
  have turn1: "rotate_cw d = (- snd d, fst d)"
    by (simp add: rotate_cw_def)
  have turn2: "(rotate_cw ^^ 2) d = (- fst d, - snd d)"
    by (simp add: funpow_small rotate_cw_def)
  have turn3: "(rotate_cw ^^ 3) d = (snd d, - fst d)"
    by (simp add: funpow_small rotate_cw_def)
  have any: "glsl_any b = (fst b \<or> snd b)"
    by (simp add: glsl_any_def)
  have all: "glsl_all b = (fst b \<and> snd b)"
    by (simp add: glsl_all_def)
  have idx: "bloatidx v = 0 \<or> bloatidx v = 1 \<or> bloatidx v = 2 \<or> bloatidx v = 3"
    using bloatidx_le by (rule field_cases)
  have cascade_n: "bloatdir_after_switch pass v corner left right = (rotate_cw ^^ n) ?d0"
    using idx unfolding bloatdir_after_switch_def n_def
    by (elim disjE) (simp_all add: bloatidx_switch_cases)
  have ne: "?ne = (if kTriangles = pass \<and> is_corner v then (True, True)
      else glsl_notEqual (leftbloat corner left) (rightbloat corner right))"
    by (simp add: left_right_notequal_def)
  have corner_rec: "bloatdir_after_switch pass v corner left right =
      (rotate_cw ^^ (if bloatidx v = 0 then 0 else if bloatidx v = 1 then 1
                     else if bloatidx v = 2 then 2 else 3)) ?d0"
    if "kTriangles = pass \<and> is_corner v"
    using that idx unfolding cascade_n n_def ne
    by (elim disjE) (simp_all add: glsl_all_def glsl_any_def funpow_small)
  have other: "?d0 = ?lb" if "\<not> (kTriangles = pass \<and> is_corner v)"
    using that by (auto simp add: bloatdir_before_switch_def Let_def)
  have third: "if kTriangles = pass \<and> is_corner v
    then bloatdir_after_switch pass v corner left right =
           (rotate_cw ^^
              (if bloatidx v = 0 then 0 else if bloatidx v = 1 then 1
               else if bloatidx v = 2 then 2 else 3)) ?d0
    else ?d0 = ?lb"
  proof (cases "kTriangles = pass \<and> is_corner v")
    case True
    show ?thesis
      unfolding if_P [OF True] by (rule corner_rec [OF True])
  next
    case False
    show ?thesis
      unfolding if_not_P [OF False] by (rule other [OF False])
  qed
  have entry: "?d0 = (if ?M then (snd ?lb, - fst ?lb) else ?lb)"
    by (simp add: bloatdir_before_switch_def Let_def)
  have entry_turns: "?d0 = (rotate_cw ^^ (if ?M then 3 else 0)) ?lb"
  proof (cases ?M)
    case True
    show ?thesis
      unfolding entry if_P [OF True] by (simp only: rotate_cw_powers)
  next
    case False
    show ?thesis
      unfolding entry if_not_P [OF False] by simp
  qed
  have from_leftbloat_n: "bloatdir_after_switch pass v corner left right =
      (rotate_cw ^^ (n + (if ?M then 3 else 0))) ?lb"
    unfolding cascade_n funpow_add comp_apply
    using entry_turns by simp
  have t3: "filter (\<lambda>v. bloatidx v = 3) kTriangleVertices =
     [triangle_corner_vertex_data 0 3, triangle_corner_vertex_data 1 3,
      triangle_corner_vertex_data 2 3]"
    by (simp add: kTriangleVertices_def pack_defs bloatidx_def)
  have h3: "filter (\<lambda>v. bloatidx v = 3) kHull4AndEdgeVertices = []"
    by (simp add: kHull4AndEdgeVertices_def pack_defs bloatidx_def)
  note cascade = cascade_n [unfolded n_def]
  note from_leftbloat = from_leftbloat_n [unfolded n_def]
  show ?thesis
    by (rule conjI [OF turn1 conjI [OF turn2 conjI [OF turn3 conjI [OF any conjI [OF all
          conjI [OF cascade conjI [OF ne conjI [OF third conjI [OF entry
          conjI [OF from_leftbloat conjI [OF t3 h3]]]]]]]]]]])
qed

text \<open>
  A worked instance: record 28 of the triangle table (corner 0, bloatIdx 1) on the
  triangle \<open>(0,0), (1,0), (0,1)\<close> with positive wind and a bloat radius of one half.
  The direction after the switch is \<open>leftbloat = (-1, 1)\<close> turned clockwise once.
\<close>

lemma emitVertexPosition_example:
  "leftbloat (0, 0) (0, 1) = (- 1, 1) \<and>
   bloatdir_after_switch kTriangles (kTriangleVertices ! 28) (0, 0) (0, 1) (1, 0) = (- 1, - 1) \<and>
   emitVertexPosition (\<lambda>a b d. fst d / 4) kTriangles [(0, 0), (1, 0), (0, 1)] (1 / 2) 1
     (kTriangleVertices ! 28) = Some ((- 1 / 2, - 1 / 2), - 1 / 2)"
  by (simp add: emitVertexPosition_def clockwise_indices_def subscript_def
      kTriangleVertices_def pack_defs index_defs flag_defs is_edge_or_corner_def
      bloatdir_after_switch_def bloatidx_switch_def left_right_notequal_def
      bloatdir_before_switch_def leftbloat_def rightbloat_def glsl_sign_def
      glsl_normalize_def glsl_any_def glsl_all_def glsl_notEqual_def vsub_def vadd_def
      vscale_def rotate_cw_def coverage_before_invert_def Let_def)

section \<open>The coverage of corner records\<close>

text \<open>
  C2. For a corner record in the triangle pass, with \<open>calc\<close> the uninterpreted
  \<open>CalcEdgeCoverageAtBloatVertex\<close>, the coverage before the invert step is
  \<open>(bloatIdx == 1 ? -1 : 0)\<close>, minus \<open>calc left corner bloatdir\<close> exactly when
  \<open>((bloatIdx + 3) & 3) < 2\<close>, minus \<open>calc corner right bloatdir\<close> exactly when
  \<open>bloatIdx < 2\<close>. Case by case: \<open>- right\<close> for bloatIdx 0, \<open>- 1 - left - right\<close> for 1,
  \<open>- left\<close> for 2 and \<open>0\<close> for 3.
\<close>

theorem corner_coverage:
  assumes "is_corner v"
  shows
   "coverage_before_invert calc kTriangles v corner left right bloatdir =
      (if bloatidx v = 1 then - 1 else 0)
      - (if sint ((bloatidx v + 3) AND 3) < 2 then calc left corner bloatdir else 0)
      - (if sint (bloatidx v) < 2 then calc corner right bloatdir else 0) \<and>
    coverage_before_invert calc kTriangles v corner left right bloatdir =
      (if bloatidx v = 0 then - calc corner right bloatdir
       else if bloatidx v = 1
         then - 1 - calc left corner bloatdir - calc corner right bloatdir
       else if bloatidx v = 2 then - calc left corner bloatdir
       else 0)"
proof -
  have idx: "bloatidx v = 0 \<or> bloatidx v = 1 \<or> bloatidx v = 2 \<or> bloatidx v = 3"
    using bloatidx_le by (rule field_cases)
  have eoc: "is_edge_or_corner v"
    using assms by (simp add: is_edge_or_corner_iff)
  from idx show ?thesis
    using assms eoc
    by (elim disjE) (simp_all add: coverage_before_invert_def Let_def)
qed

theorem corner_coverage_witness:
  "is_corner (triangle_corner_vertex_data 0 1) \<and>
   kTriangleVertices ! 28 = triangle_corner_vertex_data 0 1 \<and>
   bloatidx (triangle_corner_vertex_data 0 1) = 1 \<and>
   coverage_before_invert (\<lambda>a b d. fst a - fst b) kTriangles
     (triangle_corner_vertex_data 0 1) (0, 0) (1, 0) (3, 1) (1, 1) = 1"
proof -
  have c: "is_corner (triangle_corner_vertex_data 0 1)"
    by (simp add: pack_defs is_corner_def)
  have t: "kTriangleVertices ! 28 = triangle_corner_vertex_data 0 1"
    by (simp add: kTriangleVertices_def)
  have b: "bloatidx (triangle_corner_vertex_data 0 1) = 1"
    by (simp add: pack_defs bloatidx_def)
  from c t b
    corner_coverage [OF c, of "\<lambda>a b d. fst a - fst b" "(0, 0)" "(1, 0)" "(3, 1)" "(1, 1)"]
  show ?thesis by simp
qed

section \<open>The source of the wind sign\<close>

text \<open>
  C9 (as stated, refuted). A cubics-pass processor with the cross-product method passes
  the assertions of \<open>initVS\<close>, and its \<open>wind\<close> is the sign of the area computed from the
  points, \<open>1\<close> for the unit square below, whatever the instance holds in \<open>X.w\<close> (here
  \<open>0\<close>); this is so with four input points and with three.
\<close>

theorem cubics_wind_counterexample:
  "initVS_attrib_type \<lparr>fRenderPass = kCubics, fWindMethod = kCrossProduct\<rparr> 4 =
     Inr kFloat4_GrVertexAttribType \<and>
   onEmitCode_wind \<lparr>fRenderPass = kCubics, fWindMethod = kCrossProduct\<rparr> 4
     \<lparr>fX = \<lparr>comp_x = 0, comp_y = 1, comp_z = 1, comp_w = 0\<rparr>,
      fY = \<lparr>comp_x = 0, comp_y = 0, comp_z = 1, comp_w = 1\<rparr>\<rparr> = Inr 1 \<and>
   onEmitCode_wind \<lparr>fRenderPass = kCubics, fWindMethod = kCrossProduct\<rparr> 3
     \<lparr>fX = \<lparr>comp_x = 0, comp_y = 1, comp_z = 1, comp_w = 0\<rparr>,
      fY = \<lparr>comp_x = 0, comp_y = 0, comp_z = 1, comp_w = 1\<rparr>\<rparr> = Inr 1 \<and>
   comp_w (fX \<lparr>fX = \<lparr>comp_x = 0, comp_y = 1, comp_z = 1, comp_w = 0\<rparr>,
               fY = \<lparr>comp_x = 0, comp_y = 0, comp_z = 1, comp_w = 1\<rparr>\<rparr>) = 0 \<and>
   onEmitCode_wind \<lparr>fRenderPass = kCubics, fWindMethod = kInstanceData\<rparr> 4
     \<lparr>fX = \<lparr>comp_x = 0, comp_y = 1, comp_z = 1, comp_w = 0\<rparr>,
      fY = \<lparr>comp_x = 0, comp_y = 0, comp_z = 1, comp_w = 1\<rparr>\<rparr> = Inl SkASSERT_failed"
  by (simp add: initVS_attrib_type_def onEmitCode_wind_def pts_def determinant_def vsub_def)

text \<open>
  C9 (amended). The wind method alone decides where \<open>wind\<close> comes from, in every render
  pass: with the cross-product method it is the sign of the cross-product area of the
  input points (with the second determinant added for four input points), in the cubics
  pass as in the other two; with the instance-data method it is \<open>X.w\<close> read verbatim, and
  that method is asserted to occur with three-point instances only. \<open>initVS\<close> rejects
  exactly the instance-data method with other than three input points, and gives the
  cubics pass four-component attributes.
\<close>

theorem wind_source:
  "onEmitCode_wind proc n inst =
     (case fWindMethod proc of
        kCrossProduct \<Rightarrow>
          Inr (sgn (determinant (vsub (pts n inst ! 0) (pts n inst ! 1))
                                (vsub (pts n inst ! 0) (pts n inst ! 2)) +
                    (if n = 4
                     then determinant (vsub (pts n inst ! 0) (pts n inst ! 2))
                                      (vsub (pts n inst ! 0) (pts n inst ! 3))
                     else 0)))
      | kInstanceData \<Rightarrow>
          (if n = 3 then Inr (comp_w (fX inst)) else Inl SkASSERT_failed)) \<and>
   onEmitCode_wind (proc\<lparr>fRenderPass := pass\<rparr>) n inst = onEmitCode_wind proc n inst \<and>
   initVS_attrib_type proc n =
     (if fWindMethod proc = kInstanceData \<and> n \<noteq> 3 then Inl SkASSERT_failed
      else if fRenderPass proc = kCubics \<or> fWindMethod proc = kInstanceData
        then Inr kFloat4_GrVertexAttribType
      else Inr kFloat3_GrVertexAttribType)"
proof -
  have w: "onEmitCode_wind proc n inst =
     (case fWindMethod proc of
        kCrossProduct \<Rightarrow>
          Inr (sgn (determinant (vsub (pts n inst ! 0) (pts n inst ! 1))
                                (vsub (pts n inst ! 0) (pts n inst ! 2)) +
                    (if n = 4
                     then determinant (vsub (pts n inst ! 0) (pts n inst ! 2))
                                      (vsub (pts n inst ! 0) (pts n inst ! 3))
                     else 0)))
      | kInstanceData \<Rightarrow>
          (if n = 3 then Inr (comp_w (fX inst)) else Inl SkASSERT_failed))"
    by (cases "fWindMethod proc") (auto simp add: onEmitCode_wind_def Let_def)
  have p: "onEmitCode_wind (proc\<lparr>fRenderPass := pass\<rparr>) n inst = onEmitCode_wind proc n inst"
    by (simp add: onEmitCode_wind_def)
  have a: "initVS_attrib_type proc n =
     (if fWindMethod proc = kInstanceData \<and> n \<noteq> 3 then Inl SkASSERT_failed
      else if fRenderPass proc = kCubics \<or> fWindMethod proc = kInstanceData
        then Inr kFloat4_GrVertexAttribType
      else Inr kFloat3_GrVertexAttribType)"
    by (cases "fWindMethod proc") (auto simp add: initVS_attrib_type_def)
  from w p a show ?thesis by blast
qed


end
